theory Spec2Isabelle
  imports Main "HOL-Library.Sublist"
begin

section \<open>Python values and the built-in operations the handlers use\<close>

text \<open>
  Both Lambda handlers work on values decoded from JSON: the S3 notification event, the
  Transcribe output document and the Bedrock response. A Python \<open>dict\<close> keeps its keys in
  insertion order, so an object is an association list (its keys are distinct, as in a
  \<open>dict\<close>); JSON \<open>null\<close> is Python's \<open>None\<close>. Numbers are Python \<open>int\<close>s; a number
  with a fraction or an exponent (a Python \<open>float\<close>) is outside the model. A string is a
  list of characters with code points below 256.
\<close>

datatype json =
    JNull
  | JBool bool
  | JInt int
  | JStr string
  | JArr "json list"
  | JObj "(string \<times> json) list"

text \<open>
  Exceptions (all subclasses of Python's \<open>Exception\<close>). \<open>External\<close> is an exception raised
  inside a library or a service client (boto3, json, jinja2, \<open>open\<close>); it carries the text
  that \<open>str(e)\<close> gives. A result is \<open>Inl e\<close> when \<open>e\<close> is raised and \<open>Inr v\<close> when \<open>v\<close>
  is returned.
\<close>

datatype exn =
    KeyError json
  | IndexError string
  | TypeError string
  | AttributeError string
  | External string

type_synonym 'a result = "exn + 'a"

definition ebind :: "'a result \<Rightarrow> ('a \<Rightarrow> 'b result) \<Rightarrow> 'b result" where
  "ebind m f = (case m of Inl e \<Rightarrow> Inl e | Inr x \<Rightarrow> f x)"

fun type_name :: "json \<Rightarrow> string" where
  "type_name JNull = ''NoneType''"
| "type_name (JBool _) = ''bool''"
| "type_name (JInt _) = ''int''"
| "type_name (JStr _) = ''str''"
| "type_name (JArr _) = ''list''"
| "type_name (JObj _) = ''dict''"

definition not_subscriptable :: "json \<Rightarrow> exn" where
  "not_subscriptable v = TypeError ([CHR 0x27] @ type_name v @ ''' object is not subscriptable'')"

text \<open>\<open>v[k]\<close> for a string \<open>k\<close>.\<close>

fun subscript_key :: "json \<Rightarrow> string \<Rightarrow> json result" where
  "subscript_key (JObj kvs) k =
     (case map_of kvs k of None \<Rightarrow> Inl (KeyError (JStr k)) | Some x \<Rightarrow> Inr x)"
| "subscript_key (JArr xs) k = Inl (TypeError ''list indices must be integers or slices, not str'')"
| "subscript_key (JStr s) k = Inl (TypeError (''string indices must be integers, not 'str'' @ [CHR 0x27]))"
| "subscript_key v k = Inl (not_subscriptable v)"

text \<open>\<open>v[0]\<close>.\<close>

fun subscript_0 :: "json \<Rightarrow> json result" where
  "subscript_0 (JArr xs) =
     (case xs of [] \<Rightarrow> Inl (IndexError ''list index out of range'') | x # _ \<Rightarrow> Inr x)"
| "subscript_0 (JStr s) =
     (case s of [] \<Rightarrow> Inl (IndexError ''string index out of range'') | c # _ \<Rightarrow> Inr (JStr [c]))"
| "subscript_0 (JObj kvs) = Inl (KeyError (JInt 0))"
| "subscript_0 v = Inl (not_subscriptable v)"

text \<open>\<open>v.get(k, d)\<close>: only a \<open>dict\<close> has the method.\<close>

fun dict_get :: "json \<Rightarrow> string \<Rightarrow> json \<Rightarrow> json result" where
  "dict_get (JObj kvs) k d = Inr (case map_of kvs k of None \<Rightarrow> d | Some x \<Rightarrow> x)"
| "dict_get v k d =
     Inl (AttributeError ([CHR 0x27] @ type_name v @ ''' object has no attribute 'get'' @ [CHR 0x27]))"

text \<open>
  The values a \<open>for\<close> loop draws from \<open>v\<close>: the elements of a list, the keys of a
  \<open>dict\<close>, the characters of a string.
\<close>

fun py_iter :: "json \<Rightarrow> json list result" where
  "py_iter (JArr xs) = Inr xs"
| "py_iter (JObj kvs) = Inr (map (\<lambda>(k, v). JStr k) kvs)"
| "py_iter (JStr s) = Inr (map (\<lambda>c. JStr [c]) s)"
| "py_iter v = Inl (TypeError ([CHR 0x27] @ type_name v @ ''' object is not iterable''))"

text \<open>\<open>a == b\<close>. \<open>True\<close> and \<open>False\<close> are the integers 1 and 0; dictionaries compare without order.\<close>

fun py_eq :: "json \<Rightarrow> json \<Rightarrow> bool" where
  "py_eq JNull JNull = True"
| "py_eq (JBool a) (JBool b) = (a = b)"
| "py_eq (JBool a) (JInt n) = ((if a then 1 else 0) = n)"
| "py_eq (JInt n) (JBool a) = (n = (if a then 1 else 0))"
| "py_eq (JInt m) (JInt n) = (m = n)"
| "py_eq (JStr s) (JStr t) = (s = t)"
| "py_eq (JArr xs) (JArr ys) = list_all2 py_eq xs ys"
| "py_eq (JObj kvs) (JObj kvs') =
     (length kvs = length kvs' \<and>
      list_all (\<lambda>(k, v). case map_of kvs' k of None \<Rightarrow> False | Some v' \<Rightarrow> py_eq v v') kvs)"
| "py_eq _ _ = False"

text \<open>\<open>s in v\<close> for a string \<open>s\<close>: a substring test on a string, membership on a list, a key test on a \<open>dict\<close>.\<close>

fun py_contains :: "json \<Rightarrow> string \<Rightarrow> bool result" where
  "py_contains (JStr t) s = Inr (sublist s t)"
| "py_contains (JArr xs) s = Inr (list_ex (\<lambda>x. py_eq x (JStr s)) xs)"
| "py_contains (JObj kvs) s = Inr (list_ex (\<lambda>(k, v). k = s) kvs)"
| "py_contains v s = Inl (TypeError (''argument of type '' @ [CHR 0x27] @ type_name v @ ''' is not iterable''))"

subsection \<open>\<open>str\<close> and \<open>repr\<close>\<close>

definition digit_char :: "nat \<Rightarrow> char" where
  "digit_char d = ''0123456789abcdef'' ! d"

function show_nat :: "nat \<Rightarrow> string" where
  "show_nat n = (if n < 10 then [digit_char n] else show_nat (n div 10) @ [digit_char (n mod 10)])"
  by pat_completeness auto
termination
  by (relation "measure id") auto

declare show_nat.simps [simp del]

definition show_int :: "int \<Rightarrow> string" where
  "show_int i = (if i < 0 then ''-'' @ show_nat (nat (- i)) else show_nat (nat i))"

definition hex2 :: "nat \<Rightarrow> string" where
  "hex2 n = [digit_char (n div 16), digit_char (n mod 16)]"

definition is_printable :: "char \<Rightarrow> bool" where
  "is_printable c = (let n = (of_char c :: nat) in (32 \<le> n \<and> n < 127) \<or> (161 \<le> n \<and> n \<noteq> 173))"

definition repr_char :: "char \<Rightarrow> char \<Rightarrow> string" where
  "repr_char q c =
     (if c = q \<or> c = CHR 0x5C then [CHR 0x5C, c]
      else if c = CHR 0x09 then [CHR 0x5C, CHR ''t'']
      else if c = CHR 0x0A then [CHR 0x5C, CHR ''n'']
      else if c = CHR 0x0D then [CHR 0x5C, CHR ''r'']
      else if is_printable c then [c]
      else [CHR 0x5C, CHR ''x''] @ hex2 (of_char c))"

definition repr_str :: "string \<Rightarrow> string" where
  "repr_str s =
     (let q = (if CHR 0x27 \<in> set s \<and> CHR 0x22 \<notin> set s then CHR 0x22 else CHR 0x27)
      in [q] @ concat (map (repr_char q) s) @ [q])"

fun join :: "string \<Rightarrow> string list \<Rightarrow> string" where
  "join sep [] = []"
| "join sep [x] = x"
| "join sep (x # y # ys) = x @ sep @ join sep (y # ys)"

fun py_repr :: "json \<Rightarrow> string" where
  "py_repr JNull = ''None''"
| "py_repr (JBool b) = (if b then ''True'' else ''False'')"
| "py_repr (JInt i) = show_int i"
| "py_repr (JStr s) = repr_str s"
| "py_repr (JArr xs) = ''['' @ join '', '' (map py_repr xs) @ '']''"
| "py_repr (JObj kvs) = ''{'' @ join '', '' (map (\<lambda>(k, v). repr_str k @ '': '' @ py_repr v) kvs) @ ''}''"

text \<open>\<open>str(v)\<close>, which is also what an f-string \<open>f"{v}"\<close> inserts.\<close>

definition py_str :: "json \<Rightarrow> string" where
  "py_str v = (case v of JStr s \<Rightarrow> s | _ \<Rightarrow> py_repr v)"

text \<open>\<open>str(e)\<close> of an exception: a \<open>KeyError\<close> prints the \<open>repr\<close> of its key.\<close>

fun exn_str :: "exn \<Rightarrow> string" where
  "exn_str (KeyError k) = py_repr k"
| "exn_str (IndexError m) = m"
| "exn_str (TypeError m) = m"
| "exn_str (AttributeError m) = m"
| "exn_str (External m) = m"

subsection \<open>\<open>str.rstrip\<close> and \<open>json.dumps\<close> of a string\<close>

text \<open>The characters below 256 that Python counts as whitespace.\<close>

definition is_space :: "char \<Rightarrow> bool" where
  "is_space c = (let n = (of_char c :: nat) in (9 \<le> n \<and> n \<le> 13) \<or> (28 \<le> n \<and> n \<le> 32) \<or> n = 133 \<or> n = 160)"

text \<open>\<open>s.rstrip()\<close> removes every trailing whitespace character.\<close>

definition rstrip :: "string \<Rightarrow> string" where
  "rstrip s = rev (dropWhile is_space (rev s))"

text \<open>
  \<open>json.dumps(s)\<close> of a string \<open>s\<close> (with the default \<open>ensure_ascii\<close>): the characters
  from space to tilde stand for themselves, but for the quote and the backslash; every
  other character is escaped.
\<close>

definition json_escape :: "char \<Rightarrow> string" where
  "json_escape c =
     (if c = CHR 0x22 then [CHR 0x5C, CHR 0x22]
      else if c = CHR 0x5C then [CHR 0x5C, CHR 0x5C]
      else if c = CHR 0x0A then [CHR 0x5C, CHR ''n'']
      else if c = CHR 0x0D then [CHR 0x5C, CHR ''r'']
      else if c = CHR 0x09 then [CHR 0x5C, CHR ''t'']
      else if c = CHR 0x08 then [CHR 0x5C, CHR ''b'']
      else if c = CHR 0x0C then [CHR 0x5C, CHR ''f'']
      else if 32 \<le> (of_char c :: nat) \<and> (of_char c :: nat) \<le> 126 then [c]
      else [CHR 0x5C, CHR ''u'', CHR ''0'', CHR ''0''] @ hex2 (of_char c))"

definition json_dumps :: "string \<Rightarrow> string" where
  "json_dumps s = [CHR 0x22] @ concat (map json_escape s) @ [CHR 0x22]"

section \<open>The transcript formatter (lambda_summarize.py)\<close>

text \<open>\<open>item['alternatives'][0]['content']\<close>\<close>

definition item_content :: "json \<Rightarrow> json result" where
  "item_content item =
     ebind (subscript_key item ''alternatives'') (\<lambda>alternatives.
     ebind (subscript_0 alternatives) (\<lambda>alternative.
     subscript_key alternative ''content''))"

text \<open>
  The test that starts a new line:
  \<open>speaker_label is not None and speaker_label != current_speaker\<close>.
\<close>

definition new_speaker :: "json \<Rightarrow> json \<Rightarrow> bool" where
  "new_speaker speaker_label current_speaker =
     (speaker_label \<noteq> JNull \<and> \<not> py_eq speaker_label current_speaker)"

text \<open>
  One pass of the loop body over the state \<open>(output_text, current_speaker)\<close>; the
  statements run in the order of the source, and an exception leaves the function.
\<close>

definition loop_body :: "json \<Rightarrow> string \<times> json \<Rightarrow> (string \<times> json) result" where
  "loop_body item st =
     (case st of (output_text, current_speaker) \<Rightarrow>
      ebind (dict_get item ''speaker_label'' JNull) (\<lambda>speaker_label.
      ebind (item_content item) (\<lambda>content.
      let current_speaker' =
            (if new_speaker speaker_label current_speaker then speaker_label else current_speaker);
          output_text1 =
            (if new_speaker speaker_label current_speaker
             then output_text @ ''\<newline>'' @ py_str speaker_label @ '': ''
             else output_text)
      in
      ebind (subscript_key item ''type'') (\<lambda>item_type.
      let output_text2 =
            (if py_eq item_type (JStr ''punctuation'') then rstrip output_text1 else output_text1)
      in Inr (output_text2 @ py_str content @ '' '', current_speaker')))))"

fun for_items :: "json list \<Rightarrow> string \<times> json \<Rightarrow> (string \<times> json) result" where
  "for_items [] st = Inr st"
| "for_items (item # items) st = ebind (loop_body item st) (for_items items)"

text \<open>
  \<open>extract_transcript_from_textract(file_content)\<close>. \<open>json.loads\<close> is the library's
  parser, a parameter here.
\<close>

definition extract_transcript_from_textract ::
    "(string \<Rightarrow> json result) \<Rightarrow> string \<Rightarrow> string result" where
  "extract_transcript_from_textract json_loads file_content =
     ebind (json_loads file_content) (\<lambda>transcript_json.
     ebind (subscript_key transcript_json ''results'') (\<lambda>results.
     ebind (subscript_key results ''items'') (\<lambda>items.
     ebind (py_iter items) (\<lambda>item_list.
     ebind (for_items item_list ([], JNull)) (\<lambda>st.
     Inr (fst st))))))"

section \<open>The S3 notification event and the handlers' responses\<close>

text \<open>
  A handler is a function of the event and of what it reads from outside; it gives the
  response it returns, or the exception that leaves it, together with the calls it makes
  to the service clients. The \<open>print\<close> statements only write to the log and are left out,
  as is the unused \<open>context\<close> argument.
\<close>

text \<open>
  \<open>event['Records'][0]['s3']['bucket']['name']\<close> and
  \<open>event['Records'][0]['s3']['object']['key']\<close>, the first two statements of both handlers.
\<close>

definition event_bucket :: "json \<Rightarrow> json result" where
  "event_bucket event =
     ebind (subscript_key event ''Records'') (\<lambda>records.
     ebind (subscript_0 records) (\<lambda>record.
     ebind (subscript_key record ''s3'') (\<lambda>s3.
     ebind (subscript_key s3 ''bucket'') (\<lambda>bucket.
     subscript_key bucket ''name''))))"

definition event_key :: "json \<Rightarrow> json result" where
  "event_key event =
     ebind (subscript_key event ''Records'') (\<lambda>records.
     ebind (subscript_0 records) (\<lambda>record.
     ebind (subscript_key record ''s3'') (\<lambda>s3.
     ebind (subscript_key s3 ''object'') (\<lambda>object.
     subscript_key object ''key''))))"

record response =
  statusCode :: int
  body :: string

text \<open>The response of both \<open>except Exception as e\<close> blocks.\<close>

definition error_response :: "exn \<Rightarrow> response" where
  "error_response e = \<lparr>statusCode = 500, body = json_dumps (''Error occurred: '' @ exn_str e)\<rparr>"

section \<open>The transcription handler (lambda_transcribe.py)\<close>

text \<open>The keyword arguments of \<open>start_transcription_job\<close>.\<close>

record job_request =
  TranscriptionJobName :: string
  MediaFileUri :: string
  MediaFormat :: string
  LanguageCode :: string
  OutputBucketName :: string
  OutputKey :: string
  ShowSpeakerLabels :: bool
  MaxSpeakerLabels :: int

text \<open>
  What the handler reads from outside: the process environment, the text of the UUID that
  \<open>uuid.uuid4()\<close> draws in this invocation, and the Transcribe client, which returns a
  response or raises.
\<close>

record transcribe_env =
  environ :: "string \<rightharpoonup> string"
  uuid4 :: string
  start_transcription_job :: "job_request \<Rightarrow> json result"

text \<open>
  The body of the \<open>try\<close> block. The result is paired with the requests made to the
  Transcribe client. The arguments of the call are evaluated before the call, so a missing
  environment variable raises before any request.
\<close>

definition submit_job :: "transcribe_env \<Rightarrow> json \<Rightarrow> json \<Rightarrow> json result \<times> job_request list" where
  "submit_job env bucket key =
     (let job_name = ''transcription-job-'' @ uuid4 env;
          media_file_uri = ''s3://'' @ py_str bucket @ ''/'' @ py_str key
      in case environ env ''S3BUCKETNAMETEXT'' of
           None \<Rightarrow> (Inl (KeyError (JStr ''S3BUCKETNAMETEXT'')), [])
         | Some output_bucket \<Rightarrow>
             let request = \<lparr>TranscriptionJobName = job_name,
                            MediaFileUri = media_file_uri,
                            MediaFormat = ''mp3'',
                            LanguageCode = ''en-US'',
                            OutputBucketName = output_bucket,
                            OutputKey = job_name @ ''-transcript.json'',
                            ShowSpeakerLabels = True,
                            MaxSpeakerLabels = 2\<rparr>
             in (start_transcription_job env request, [request]))"

text \<open>
  \<open>lambda_handler\<close> of lambda_transcribe.py. \<open>Inl e\<close> is an exception that leaves the
  handler; \<open>Inr r\<close> is the returned response.
\<close>

definition transcribe_lambda_handler ::
    "transcribe_env \<Rightarrow> json \<Rightarrow> response result \<times> job_request list" where
  "transcribe_lambda_handler env event =
     (case event_bucket event of
        Inl e \<Rightarrow> (Inl e, [])
      | Inr bucket \<Rightarrow>
     (case event_key event of
        Inl e \<Rightarrow> (Inl e, [])
      | Inr key \<Rightarrow>
          if \<not> py_eq key (JStr ''dialog.mp3'')
          then (Inr \<lparr>statusCode = 200,
                     body = json_dumps (''Skipping file '' @ py_str key @ '' - not dialog.mp3'')\<rparr>, [])
          else (case submit_job env bucket key of
                  (Inl e, requests) \<Rightarrow> (Inr (error_response e), requests)
                | (Inr _, requests) \<Rightarrow>
                    (Inr \<lparr>statusCode = 200,
                          body = json_dumps (''Submitted transcription job for '' @ py_str key @
                                             '' from bucket '' @ py_str bucket @ ''.'')\<rparr>,
                     requests))))"

section \<open>The summarization handler (lambda_summarize.py)\<close>

text \<open>
  The keyword arguments of \<open>invoke_model\<close>; the field \<open>request_body\<close> is the argument
  \<open>body\<close>.
\<close>

record model_request =
  modelId :: string
  contentType :: string
  accept :: string
  request_body :: string

text \<open>
  The calls made to the S3 and Bedrock clients: \<open>GetObject\<close> with Bucket and Key,
  \<open>InvokeModel\<close> with its keyword arguments, \<open>PutObject\<close> with Bucket, Key, Body and
  ContentType.
\<close>

datatype call =
    GetObject json json
  | InvokeModel model_request
  | PutObject json string json string

text \<open>
  What the handler reads from outside.
  \<^item> \<open>get_object bucket key\<close>: the text that
    \<open>s3_client.get_object(Bucket=bucket, Key=key)['Body'].read().decode('utf-8')\<close> gives,
    or the exception raised on the way;
  \<^item> \<open>json_loads\<close>: \<open>json.loads\<close>;
  \<^item> \<open>prompt_template\<close>: the text read from the file prompt_template.txt;
  \<^item> \<open>render template_string transcript topics\<close>: what
    \<open>Template(template_string).render(data)\<close> gives for the two entries of \<open>data\<close>;
  \<^item> \<open>invoke_model kwargs\<close>: the text that
    \<open>bedrock_runtime.invoke_model(**kwargs).get('body').read()\<close> gives;
  \<^item> \<open>put_object bucket key body content_type\<close>: the response of \<open>s3_client.put_object\<close>.
\<close>

record summarize_env =
  get_object :: "json \<Rightarrow> json \<Rightarrow> string result"
  json_loads :: "string \<Rightarrow> json result"
  prompt_template :: "string result"
  render :: "string \<Rightarrow> string \<Rightarrow> string list \<Rightarrow> string result"
  invoke_model :: "model_request \<Rightarrow> string result"
  put_object :: "json \<Rightarrow> string \<Rightarrow> json \<Rightarrow> string \<Rightarrow> json result"

definition topics :: "string list" where
  "topics = [''charges'', ''location'', ''availability'']"

text \<open>
  The \<open>json.dumps\<close> of the request dictionary, whose only variable part is the prompt.
\<close>

definition model_request_body :: "string \<Rightarrow> string" where
  "model_request_body prompt =
     ''{'' @ json_dumps ''messages'' @ '': [{'' @ json_dumps ''role'' @ '': '' @ json_dumps ''user'' @
     '', '' @ json_dumps ''content'' @ '': [{'' @ json_dumps ''text'' @ '': '' @ json_dumps prompt @
     ''}]}], '' @ json_dumps ''inferenceConfig'' @ '': {'' @ json_dumps ''maxTokens'' @ '': 2048, '' @
     json_dumps ''temperature'' @ '': 0, '' @ json_dumps ''topP'' @ '': 0.9}}''"

definition model_kwargs :: "string \<Rightarrow> model_request" where
  "model_kwargs prompt =
     \<lparr>modelId = ''us.amazon.nova-lite-v1:0'',
      contentType = ''application/json'',
      accept = ''*/*'',
      request_body = model_request_body prompt\<rparr>"

text \<open>\<open>bool(v)\<close>\<close>

fun py_truthy :: "json \<Rightarrow> bool" where
  "py_truthy JNull = False"
| "py_truthy (JBool b) = b"
| "py_truthy (JInt i) = (i \<noteq> 0)"
| "py_truthy (JStr s) = (s \<noteq> [])"
| "py_truthy (JArr xs) = (xs \<noteq> [])"
| "py_truthy (JObj kvs) = (kvs \<noteq> [])"

text \<open>
  \<open>next((item for item in content_list if "text" in item), None)\<close>: the first item that
  contains "text", or \<open>None\<close>; the items after it are not looked at.
\<close>

fun first_with_text :: "json list \<Rightarrow> json result" where
  "first_with_text [] = Inr JNull"
| "first_with_text (item # items) =
     ebind (py_contains item ''text'') (\<lambda>found.
     if found then Inr item else first_with_text items)"

text \<open>The lines after \<open>invoke_model\<close>, on the text of the response body.\<close>

definition parse_response :: "(string \<Rightarrow> json result) \<Rightarrow> string \<Rightarrow> json result" where
  "parse_response loads raw =
     ebind (loads raw) (\<lambda>response_body.
     ebind (subscript_key response_body ''output'') (\<lambda>output.
     ebind (subscript_key output ''message'') (\<lambda>message.
     ebind (subscript_key message ''content'') (\<lambda>content_list.
     ebind (py_iter content_list) (\<lambda>items.
     ebind (first_with_text items) (\<lambda>text_block.
     if py_truthy text_block then subscript_key text_block ''text'' else Inr (JStr [])))))))"

text \<open>\<open>bedrock_summarisation(transcript)\<close>, with the calls it makes.\<close>

definition bedrock_summarisation :: "summarize_env \<Rightarrow> string \<Rightarrow> json result \<times> call list" where
  "bedrock_summarisation env transcript =
     (case prompt_template env of
        Inl e \<Rightarrow> (Inl e, [])
      | Inr template_string \<Rightarrow>
     (case render env template_string transcript topics of
        Inl e \<Rightarrow> (Inl e, [])
      | Inr prompt \<Rightarrow>
     (case invoke_model env (model_kwargs prompt) of
        Inl e \<Rightarrow> (Inl e, [InvokeModel (model_kwargs prompt)])
      | Inr raw \<Rightarrow> (parse_response (json_loads env) raw, [InvokeModel (model_kwargs prompt)]))))"

text \<open>The \<open>try\<close> block up to the call of \<open>put_object\<close>: fetch, format, summarize.\<close>

definition summarize_object :: "summarize_env \<Rightarrow> json \<Rightarrow> json \<Rightarrow> json result \<times> call list" where
  "summarize_object env bucket key =
     (case get_object env bucket key of
        Inl e \<Rightarrow> (Inl e, [GetObject bucket key])
      | Inr file_content \<Rightarrow>
     (case extract_transcript_from_textract (json_loads env) file_content of
        Inl e \<Rightarrow> (Inl e, [GetObject bucket key])
      | Inr transcript \<Rightarrow>
     (case bedrock_summarisation env transcript of
        (r, calls) \<Rightarrow> (r, GetObject bucket key # calls))))"

text \<open>\<open>lambda_handler\<close> of lambda_summarize.py.\<close>

definition summarize_lambda_handler ::
    "summarize_env \<Rightarrow> json \<Rightarrow> response result \<times> call list" where
  "summarize_lambda_handler env event =
     (case event_bucket event of
        Inl e \<Rightarrow> (Inl e, [])
      | Inr bucket \<Rightarrow>
     (case event_key event of
        Inl e \<Rightarrow> (Inl e, [])
      | Inr key \<Rightarrow>
     (case py_contains key ''-transcript.json'' of
        Inl e \<Rightarrow> (Inl e, [])
      | Inr False \<Rightarrow>
          (Inr \<lparr>statusCode = 200,
                body = json_dumps (''Skipping file '' @ py_str key @ '' - not a transcript JSON file'')\<rparr>,
           [])
      | Inr True \<Rightarrow>
     (case summarize_object env bucket key of
        (Inl e, calls) \<Rightarrow> (Inr (error_response e), calls)
      | (Inr summary, calls) \<Rightarrow>
     (case put_object env bucket ''results.txt'' summary ''text/plain'' of
        Inl e \<Rightarrow>
          (Inr (error_response e), calls @ [PutObject bucket ''results.txt'' summary ''text/plain''])
      | Inr _ \<Rightarrow>
          (Inr \<lparr>statusCode = 200,
                body = json_dumps (''Successfully summarized '' @ py_str key @ '' from bucket '' @
                                   py_str bucket @ ''. Summary: '' @ py_str summary)\<rparr>,
           calls @ [PutObject bucket ''results.txt'' summary ''text/plain'']))))))"

section \<open>Shapes, measures and example data used to state the properties\<close>

text \<open>
  The shape of a transcript item as section 6 of the specification gives it: a type,
  "pronunciation" or "punctuation", an optional speaker label that is a string, and a
  non-empty list of alternatives, each with a string content.
\<close>

definition has_string_content :: "json \<Rightarrow> bool" where
  "has_string_content alternative =
     (case subscript_key alternative ''content'' of Inr (JStr _) \<Rightarrow> True | _ \<Rightarrow> False)"

definition well_formed_item :: "json \<Rightarrow> bool" where
  "well_formed_item item =
     ((case subscript_key item ''type'' of
         Inr (JStr t) \<Rightarrow> t = ''pronunciation'' \<or> t = ''punctuation'' | _ \<Rightarrow> False) \<and>
      (case dict_get item ''speaker_label'' JNull of
         Inr JNull \<Rightarrow> True | Inr (JStr _) \<Rightarrow> True | _ \<Rightarrow> False) \<and>
      (case subscript_key item ''alternatives'' of
         Inr (JArr (a # as)) \<Rightarrow> list_all has_string_content (a # as) | _ \<Rightarrow> False))"

text \<open>The number of places of a text at which a pattern occurs.\<close>

fun occurrences :: "string \<Rightarrow> string \<Rightarrow> nat" where
  "occurrences pat [] = (if pat = [] then 1 else 0)"
| "occurrences pat (c # s) = (if prefix pat (c # s) then 1 else 0) + occurrences pat s"

text \<open>An item of the given type, with or without a speaker label, and one alternative.\<close>

definition labelled_item :: "string \<Rightarrow> string \<Rightarrow> string \<Rightarrow> json" where
  "labelled_item item_type speaker_label content =
     JObj [(''type'', JStr item_type), (''speaker_label'', JStr speaker_label),
           (''alternatives'', JArr [JObj [(''content'', JStr content)]])]"

definition unlabelled_item :: "string \<Rightarrow> string \<Rightarrow> json" where
  "unlabelled_item item_type content =
     JObj [(''type'', JStr item_type),
           (''alternatives'', JArr [JObj [(''content'', JStr content)]])]"

definition transcript_document :: "json list \<Rightarrow> json" where
  "transcript_document items = JObj [(''results'', JObj [(''items'', JArr items)])]"

text \<open>The three items of the spec's first scenario, and the document that wraps them.\<close>

definition scenario1_items :: "json list" where
  "scenario1_items =
     [labelled_item ''pronunciation'' ''spk_0'' ''Hello'',
      unlabelled_item ''punctuation'' '','',
      labelled_item ''pronunciation'' ''spk_0'' ''there'']"

definition scenario1_document :: json where
  "scenario1_document = transcript_document scenario1_items"

text \<open>The trigger event of the spec's section 6, with one record.\<close>

definition s3_event :: "json \<Rightarrow> json \<Rightarrow> json" where
  "s3_event bucket key =
     JObj [(''Records'',
            JArr [JObj [(''s3'', JObj [(''bucket'', JObj [(''name'', bucket)]),
                                       (''object'', JObj [(''key'', key)])])]])]"

text \<open>A dictionary without the key \<open>k\<close>.\<close>

definition lacks_key :: "json \<Rightarrow> string \<Rightarrow> bool" where
  "lacks_key v k = (case v of JObj kvs \<Rightarrow> map_of kvs k = None | _ \<Rightarrow> False)"

text \<open>The subclasses of Python's \<open>LookupError\<close>.\<close>

fun lookup_error :: "exn \<Rightarrow> bool" where
  "lookup_error (KeyError _) = True"
| "lookup_error (IndexError _) = True"
| "lookup_error _ = False"

fun is_put :: "call \<Rightarrow> bool" where
  "is_put (PutObject _ _ _ _) = True"
| "is_put _ = False"

text \<open>
  Example environments: a Transcribe client that accepts every job, with and without the
  variable S3BUCKETNAMETEXT; an S3 bucket that holds the document of the first scenario, a
  template that is followed by the transcript and the topics, and a model that answers with
  one text block.
\<close>

definition example_transcribe_env :: transcribe_env where
  "example_transcribe_env =
     \<lparr>environ = [''S3BUCKETNAMETEXT'' \<mapsto> ''transcripts''],
      uuid4 = ''0f8fad5b-d9cb-469f-a165-70867728950e'',
      start_transcription_job = (\<lambda>request. Inr (JObj []))\<rparr>"

definition model_reply :: json where
  "model_reply =
     JObj [(''output'', JObj [(''message'',
       JObj [(''role'', JStr ''assistant''), (''content'', JArr [JObj [(''text'', JStr ''Calm call.'')]])])])]"

definition example_summarize_env :: summarize_env where
  "example_summarize_env =
     \<lparr>get_object = (\<lambda>bucket key. Inr ''transcript''),
      json_loads = (\<lambda>s. if s = ''transcript'' then Inr scenario1_document else Inr model_reply),
      prompt_template = Inr ''Summarize: '',
      render = (\<lambda>template_string transcript ts. Inr (template_string @ transcript @ concat ts)),
      invoke_model = (\<lambda>kwargs. Inr ''reply''),
      put_object = (\<lambda>bucket key body content_type. Inr (JObj []))\<rparr>"
text \<open>
  Inputs on which the formatter does not join a word and the punctuation after it: the
  punctuation item carries another speaker's label; the word's content ends in a space.
\<close>

definition speaker_change_items :: "json list" where
  "speaker_change_items =
     [labelled_item ''pronunciation'' ''spk_0'' ''Hello'',
      labelled_item ''punctuation'' ''spk_1'' ''?'']"

definition trailing_space_items :: "json list" where
  "trailing_space_items =
     [labelled_item ''pronunciation'' ''spk_0'' ''Hi '',
      unlabelled_item ''punctuation'' '','']"

text \<open>
  Inputs with one speaker on which the header does not occur once: the first item is a
  punctuation mark; a content holds a line break and the text of a header.
\<close>

definition leading_punctuation_items :: "json list" where
  "leading_punctuation_items = [labelled_item ''punctuation'' ''spk_0'' ''.'']"

definition header_in_content_items :: "json list" where
  "header_in_content_items = [labelled_item ''pronunciation'' ''spk_0'' ''a\<newline>spk_0: b'']"

section \<open>Auxiliary facts\<close>

lemma ebind_Inr [simp]: "ebind (Inr x) f = f x"
  by (simp add: ebind_def)

lemma ebind_Inl [simp]: "ebind (Inl e) f = Inl e"
  by (simp add: ebind_def)

lemma ebind_eq_Inr: "ebind m f = Inr y \<longleftrightarrow> (\<exists>x. m = Inr x \<and> f x = Inr y)"
  by (cases m) simp_all

lemma for_items_append: "for_items (xs @ ys) st = ebind (for_items xs st) (for_items ys)"
  by (induction xs arbitrary: st) (simp_all add: ebind_def split: sum.splits)

subsection \<open>Trailing whitespace\<close>

lemma rstrip_append_keep:
  assumes "s \<noteq> []" and "\<not> is_space (last s)"
  shows "rstrip (s @ t) = s @ rstrip t"
proof -
  from assms have "dropWhile is_space (rev s) = rev s"
    by (cases s rule: rev_cases) simp_all
  then show ?thesis
    using assms by (simp add: rstrip_def dropWhile_append)
qed

lemma rstrip_only_space [simp]: "rstrip '' '' = []"
  by (simp add: rstrip_def is_space_def)

lemma set_rstrip: "set (rstrip s) \<subseteq> set s"
  unfolding rstrip_def using set_dropWhileD by fastforce

subsection \<open>Well-formed items never raise\<close>

lemma well_formed_item_type:
  assumes "well_formed_item item"
  obtains t where "subscript_key item ''type'' = Inr (JStr t)"
proof -
  from assms have "case subscript_key item ''type'' of
         Inr (JStr t) \<Rightarrow> t = ''pronunciation'' \<or> t = ''punctuation'' | _ \<Rightarrow> False"
    unfolding well_formed_item_def by blast
  then show ?thesis using that
    by (cases "subscript_key item ''type''") (auto split: json.splits)
qed

lemma well_formed_item_label:
  assumes "well_formed_item item"
  obtains "dict_get item ''speaker_label'' JNull = Inr JNull"
  | s where "dict_get item ''speaker_label'' JNull = Inr (JStr s)"
proof -
  from assms have "case dict_get item ''speaker_label'' JNull of
         Inr JNull \<Rightarrow> True | Inr (JStr _) \<Rightarrow> True | _ \<Rightarrow> False"
    unfolding well_formed_item_def by blast
  then show ?thesis using that
    by (cases "dict_get item ''speaker_label'' JNull") (auto split: json.splits)
qed

lemma well_formed_item_content:
  assumes "well_formed_item item"
  obtains c where "item_content item = Inr (JStr c)"
proof -
  from assms have "case subscript_key item ''alternatives'' of
         Inr (JArr (a # as)) \<Rightarrow> list_all has_string_content (a # as) | _ \<Rightarrow> False"
    unfolding well_formed_item_def by blast
  then obtain a as where alts: "subscript_key item ''alternatives'' = Inr (JArr (a # as))"
    and a: "has_string_content a"
    by (cases "subscript_key item ''alternatives''") (auto split: json.splits list.splits)
  from a obtain c where "subscript_key a ''content'' = Inr (JStr c)"
    unfolding has_string_content_def
    by (cases "subscript_key a ''content''") (auto split: json.splits)
  with alts have "item_content item = Inr (JStr c)"
    by (simp add: item_content_def)
  then show ?thesis using that by blast
qed

lemma loop_body_fields:
  assumes "dict_get item ''speaker_label'' JNull = Inr l"
    and "item_content item = Inr c"
    and "subscript_key item ''type'' = Inr t"
  shows "loop_body item (out, cur) =
     Inr ((if py_eq t (JStr ''punctuation'')
           then rstrip (if new_speaker l cur then out @ ''\<newline>'' @ py_str l @ '': '' else out)
           else (if new_speaker l cur then out @ ''\<newline>'' @ py_str l @ '': '' else out))
          @ py_str c @ '' '',
          if new_speaker l cur then l else cur)"
  using assms by (simp add: loop_body_def Let_def)

lemma loop_body_total:
  assumes "well_formed_item item"
  shows "\<exists>st'. loop_body item st = Inr st'"
proof -
  obtain out cur where st: "st = (out, cur)" by (cases st)
  from assms obtain t where t: "subscript_key item ''type'' = Inr (JStr t)"
    by (rule well_formed_item_type)
  from assms obtain c where c: "item_content item = Inr (JStr c)"
    by (rule well_formed_item_content)
  from assms obtain l where l: "dict_get item ''speaker_label'' JNull = Inr l"
    by (rule well_formed_item_label) blast+
  show ?thesis unfolding st loop_body_fields [OF l c t] by blast
qed

lemma for_items_total:
  "list_all well_formed_item items \<Longrightarrow> \<exists>st'. for_items items st = Inr st'"
proof (induction items arbitrary: st)
  case Nil
  then show ?case by simp
next
  case (Cons item items)
  then obtain st1 where "loop_body item st = Inr st1"
    using loop_body_total [of item st] by auto
  with Cons show ?case by simp
qed

subsection \<open>Text that ends in a visible character is never stripped\<close>

lemma loop_body_keeps_prefix:
  assumes "z \<noteq> []" and "\<not> is_space (last z)"
    and "loop_body item (z @ r, cur) = Inr (out', cur')"
  shows "\<exists>r'. out' = z @ r'"
proof -
  from assms(3) obtain l c t where l: "dict_get item ''speaker_label'' JNull = Inr l"
    and c: "item_content item = Inr c" and t: "subscript_key item ''type'' = Inr t"
    unfolding loop_body_def by (auto simp: ebind_eq_Inr Let_def)
  have "rstrip (z @ s) = z @ rstrip s" for s
    using assms(1,2) by (rule rstrip_append_keep)
  from this [of r] this [of "r @ ''\<newline>'' @ py_str l @ '': ''"] assms(3)
  show ?thesis
    unfolding loop_body_fields [OF l c t] by (auto split: if_splits)
qed

lemma for_items_keeps_prefix:
  assumes "z \<noteq> []" and "\<not> is_space (last z)"
  shows "for_items items (z @ r, cur) = Inr (out, cur') \<Longrightarrow> prefix z out"
proof (induction items arbitrary: r cur)
  case Nil
  then show ?case by auto
next
  case (Cons item items)
  then obtain o1 c1 where step: "loop_body item (z @ r, cur) = Inr (o1, c1)"
    and rest: "for_items items (o1, c1) = Inr (out, cur')"
    by (auto simp: ebind_eq_Inr)
  from loop_body_keeps_prefix [OF assms step] obtain r' where "o1 = z @ r'" by blast
  with rest Cons.IH show ?case by blast
qed

lemma extract_transcript_items:
  assumes "loads file_content = Inr doc"
    and "subscript_key doc ''results'' = Inr results"
    and "subscript_key results ''items'' = Inr (JArr items)"
  shows "extract_transcript_from_textract loads file_content =
           ebind (for_items items ([], JNull)) (\<lambda>st. Inr (fst st))"
  using assms by (simp add: extract_transcript_from_textract_def)

subsection \<open>One speaker\<close>

lemma loop_body_same_speaker:
  assumes "z \<noteq> []" and "\<not> is_space (last z)" and "CHR ''\<newline>'' \<notin> set r"
    and l: "dict_get item ''speaker_label'' JNull = Inr (JStr l)"
    and c: "item_content item = Inr (JStr c)" and "CHR ''\<newline>'' \<notin> set c"
    and t: "subscript_key item ''type'' = Inr t"
  shows "\<exists>r'. loop_body item (z @ r, JStr l) = Inr (z @ r', JStr l) \<and> CHR ''\<newline>'' \<notin> set r'"
proof -
  have quiet: "\<not> new_speaker (JStr l) (JStr l)" by (simp add: new_speaker_def)
  have keep: "rstrip (z @ r) = z @ rstrip r"
    using assms(1,2) by (rule rstrip_append_keep)
  have "CHR ''\<newline>'' \<notin> set (rstrip r)"
    using assms(3) set_rstrip [of r] by blast
  with assms(3,6) show ?thesis
    unfolding loop_body_fields [OF l c t] using quiet keep by (simp add: py_str_def)
qed

lemma for_items_same_speaker:
  assumes "z \<noteq> []" and "\<not> is_space (last z)"
  shows "CHR ''\<newline>'' \<notin> set r \<Longrightarrow> list_all well_formed_item items \<Longrightarrow>
    list_all (\<lambda>item. dict_get item ''speaker_label'' JNull = Inr (JStr l)) items \<Longrightarrow>
    \<forall>item \<in> set items. \<forall>c. item_content item = Inr (JStr c) \<longrightarrow> CHR ''\<newline>'' \<notin> set c \<Longrightarrow>
    \<exists>r'. for_items items (z @ r, JStr l) = Inr (z @ r', JStr l) \<and> CHR ''\<newline>'' \<notin> set r'"
proof (induction items arbitrary: r)
  case Nil
  then show ?case by simp
next
  case (Cons item items)
  from Cons.prems obtain t where t: "subscript_key item ''type'' = Inr (JStr t)"
    using well_formed_item_type [of item] by auto
  from Cons.prems obtain c where c: "item_content item = Inr (JStr c)"
    using well_formed_item_content [of item] by auto
  with Cons.prems have cn: "CHR ''\<newline>'' \<notin> set c" by simp
  from Cons.prems have l: "dict_get item ''speaker_label'' JNull = Inr (JStr l)" by simp
  from loop_body_same_speaker [OF assms Cons.prems(1) l c cn t]
  obtain r1 where step: "loop_body item (z @ r, JStr l) = Inr (z @ r1, JStr l)"
    and r1: "CHR ''\<newline>'' \<notin> set r1" by blast
  from Cons.IH [OF r1] Cons.prems
  obtain r' where "for_items items (z @ r1, JStr l) = Inr (z @ r', JStr l)"
    and "CHR ''\<newline>'' \<notin> set r'" by auto
  with step show ?case by simp
qed

lemma occurrences_too_few:
  "count_list s c < count_list pat c \<Longrightarrow> occurrences pat s = 0"
proof (induction s)
  case Nil
  then show ?case by auto
next
  case (Cons x s)
  have "\<not> prefix pat (x # s)"
  proof
    assume "prefix pat (x # s)"
    then obtain r where "x # s = pat @ r" by (auto simp: prefix_def)
    then have "count_list (x # s) c = count_list pat c + count_list r c"
      by (simp only: count_list_append)
    with Cons.prems show False by simp
  qed
  moreover from Cons.prems have "count_list s c < count_list pat c"
    by (simp split: if_splits)
  ultimately show ?case using Cons.IH by simp
qed

lemma count_list_absent: "c \<notin> set s \<Longrightarrow> count_list s c = 0"
  by (induction s) auto

section \<open>Properties of the transcript formatter\<close>

text \<open>
  C1. On the document that wraps the three items (word "Hello" by spk_0, punctuation ","
  without a speaker label, word "there" by spk_0) under results.items, the formatter
  returns the string made of a newline, "spk_0: Hello, there" and one trailing space.
\<close>

theorem scenario1_output:
  "loads file_content = Inr scenario1_document \<Longrightarrow>
   extract_transcript_from_textract loads file_content = Inr ''\<newline>spk_0: Hello, there ''"
  unfolding extract_transcript_from_textract_def scenario1_document_def scenario1_items_def
    transcript_document_def labelled_item_def unlabelled_item_def
  by (simp add: loop_body_def item_content_def new_speaker_def py_str_def
      rstrip_def is_space_def)

theorem scenario1_output_witness:
  "extract_transcript_from_textract (\<lambda>_. Inr scenario1_document) ''{}''
     = Inr ''\<newline>spk_0: Hello, there ''"
  using scenario1_output [of "\<lambda>_. Inr scenario1_document" "''{}''"] by simp

text \<open>
  C2, as stated, fails. A punctuation item that carries another speaker's label starts a
  new line first, and the mark lands after that header, not after the word. And
  \<open>rstrip\<close> removes every trailing whitespace character, so a word content that ends in a
  space loses it together with the space the formatter appended.
\<close>

theorem punctuation_attaches_counterexample:
  "list_all well_formed_item speaker_change_items \<and>
   extract_transcript_from_textract (\<lambda>_. Inr (transcript_document speaker_change_items)) ''{}''
     = Inr ''\<newline>spk_0: Hello \<newline>spk_1:? '' \<and>
   \<not> sublist ''Hello?'' ''\<newline>spk_0: Hello \<newline>spk_1:? '' \<and>
   list_all well_formed_item trailing_space_items \<and>
   extract_transcript_from_textract (\<lambda>_. Inr (transcript_document trailing_space_items)) ''{}''
     = Inr ''\<newline>spk_0: Hi, '' \<and>
   \<not> sublist ''Hi ,'' ''\<newline>spk_0: Hi, ''"
proof -
  have "list_all well_formed_item speaker_change_items"
    by (simp add: speaker_change_items_def labelled_item_def well_formed_item_def
        has_string_content_def)
  moreover have "extract_transcript_from_textract
      (\<lambda>_. Inr (transcript_document speaker_change_items)) ''{}''
        = Inr ''\<newline>spk_0: Hello \<newline>spk_1:? ''"
    unfolding extract_transcript_from_textract_def speaker_change_items_def
      transcript_document_def labelled_item_def
    by (simp add: loop_body_def item_content_def new_speaker_def py_str_def
        rstrip_def is_space_def)
  moreover have "\<not> sublist ''Hello?'' ''\<newline>spk_0: Hello \<newline>spk_1:? ''"
    by code_simp
  moreover have "list_all well_formed_item trailing_space_items"
    by (simp add: trailing_space_items_def labelled_item_def unlabelled_item_def
        well_formed_item_def has_string_content_def)
  moreover have "extract_transcript_from_textract
      (\<lambda>_. Inr (transcript_document trailing_space_items)) ''{}'' = Inr ''\<newline>spk_0: Hi, ''"
    unfolding extract_transcript_from_textract_def trailing_space_items_def
      transcript_document_def labelled_item_def unlabelled_item_def
    by (simp add: loop_body_def item_content_def new_speaker_def py_str_def
        rstrip_def is_space_def)
  moreover have "\<not> sublist ''Hi ,'' ''\<newline>spk_0: Hi, ''"
    by code_simp
  ultimately show ?thesis by blast
qed

text \<open>
  C2, amended. In a sequence of well-formed items, let a punctuation item \<open>p\<close> follow a
  word item \<open>w\<close> at once, where the word's content is not empty, neither content ends in a
  whitespace character, and \<open>p\<close> carries no speaker label or the label of \<open>w\<close>. Then the
  formatter returns, and its output holds the word's content with the punctuation content
  right behind it: the text \<open>y @ cw @ '' ''\<close> built up to the word becomes
  \<open>y @ cw @ cp @ '' ''\<close>, so \<open>rstrip\<close> has removed exactly the one space after the word,
  and no later item changes \<open>y @ cw @ cp\<close>.
\<close>

theorem punctuation_attaches_to_word:
  assumes doc: "loads file_content = Inr doc"
      "subscript_key doc ''results'' = Inr results"
      "subscript_key results ''items'' = Inr (JArr (pre @ [w, p] @ post))"
    and wf: "list_all well_formed_item (pre @ [w, p] @ post)"
    and w: "subscript_key w ''type'' = Inr (JStr ''pronunciation'')"
      "item_content w = Inr (JStr cw)" "cw \<noteq> []" "\<not> is_space (last cw)"
    and p: "subscript_key p ''type'' = Inr (JStr ''punctuation'')"
      "item_content p = Inr (JStr cp)" "cp = [] \<or> \<not> is_space (last cp)"
    and same: "dict_get p ''speaker_label'' JNull = Inr JNull \<or>
      dict_get p ''speaker_label'' JNull = dict_get w ''speaker_label'' JNull"
  shows "\<exists>y cur out.
      for_items (pre @ [w]) ([], JNull) = Inr (y @ cw @ '' '', cur) \<and>
      for_items (pre @ [w, p]) ([], JNull) = Inr (y @ cw @ cp @ '' '', cur) \<and>
      extract_transcript_from_textract loads file_content = Inr out \<and>
      prefix (y @ cw @ cp) out \<and> sublist (cw @ cp) out"
proof -
  from wf have wf_pre: "list_all well_formed_item pre" and wf_w: "well_formed_item w"
    and wf_p: "well_formed_item p" and wf_post: "list_all well_formed_item post"
    by simp_all
  obtain o0 c0 where pre: "for_items pre ([], JNull) = Inr (o0, c0)"
    using for_items_total [OF wf_pre, of "([], JNull)"] by auto
  obtain lw where lw: "dict_get w ''speaker_label'' JNull = Inr lw"
    and lw_cases: "lw = JNull \<or> (\<exists>s. lw = JStr s)"
    using wf_w by (rule well_formed_item_label) blast+
  obtain lp where lp: "dict_get p ''speaker_label'' JNull = Inr lp"
    using wf_p by (rule well_formed_item_label) blast+
  define y where "y = (if new_speaker lw c0 then o0 @ ''\<newline>'' @ py_str lw @ '': '' else o0)"
  define c1 where "c1 = (if new_speaker lw c0 then lw else c0)"
  have step_w: "loop_body w (o0, c0) = Inr (y @ cw @ '' '', c1)"
    unfolding loop_body_fields [OF lw w(2) w(1)] y_def c1_def by (simp add: py_str_def)
  have run_w: "for_items (pre @ [w]) ([], JNull) = Inr (y @ cw @ '' '', c1)"
    by (simp add: for_items_append pre step_w)
  from same lw lp have "lp = JNull \<or> lp = lw" by auto
  then have quiet: "\<not> new_speaker lp c1"
    using lw_cases unfolding c1_def new_speaker_def by auto
  have keep: "rstrip ((y @ cw) @ '' '') = (y @ cw) @ rstrip '' ''"
    using w(3,4) by (intro rstrip_append_keep) simp_all
  have step_p: "loop_body p (y @ cw @ '' '', c1) = Inr (y @ cw @ cp @ '' '', c1)"
    unfolding loop_body_fields [OF lp p(2) p(1)] using quiet keep by (simp add: py_str_def)
  have run_p: "for_items (pre @ [w, p]) ([], JNull) = Inr (y @ cw @ cp @ '' '', c1)"
    by (simp add: for_items_append pre step_w step_p)
  obtain out c2 where post: "for_items post (y @ cw @ cp @ '' '', c1) = Inr (out, c2)"
    using for_items_total [OF wf_post, of "(y @ cw @ cp @ '' '', c1)"] by auto
  have "pre @ [w, p] @ post = (pre @ [w, p]) @ post" by simp
  then have run: "for_items (pre @ [w, p] @ post) ([], JNull) = Inr (out, c2)"
    using run_p post by (simp only: for_items_append ebind_Inr)
  have ex: "extract_transcript_from_textract loads file_content = Inr out"
    unfolding extract_transcript_items [of loads file_content, OF doc] run by simp
  have z1: "y @ cw @ cp \<noteq> []"
    using w(3) by simp
  have z2: "\<not> is_space (last (y @ cw @ cp))"
    using w(3,4) p(3) by (cases "cp = []") simp_all
  from post have "for_items post ((y @ cw @ cp) @ '' '', c1) = Inr (out, c2)" by simp
  from for_items_keeps_prefix [OF z1 z2 this] have pref: "prefix (y @ cw @ cp) out" .
  then obtain r where "out = y @ (cw @ cp) @ r" by (auto simp: prefix_def)
  then have "sublist (cw @ cp) out" unfolding sublist_def by blast
  with run_w run_p ex pref show ?thesis by blast
qed

theorem punctuation_attaches_to_word_witness:
  "\<exists>y cur out.
      for_items ([] @ [labelled_item ''pronunciation'' ''spk_0'' ''Hello'']) ([], JNull)
        = Inr (y @ ''Hello'' @ '' '', cur) \<and>
      for_items ([] @ [labelled_item ''pronunciation'' ''spk_0'' ''Hello'',
                       unlabelled_item ''punctuation'' '','']) ([], JNull)
        = Inr (y @ ''Hello'' @ '','' @ '' '', cur) \<and>
      extract_transcript_from_textract (\<lambda>_. Inr scenario1_document) ''{}'' = Inr out \<and>
      prefix (y @ ''Hello'' @ '','') out \<and> sublist (''Hello'' @ '','') out"
proof (rule punctuation_attaches_to_word
    [where doc = scenario1_document and results = "JObj [(''items'', JArr scenario1_items)]"
       and post = "[labelled_item ''pronunciation'' ''spk_0'' ''there'']"])
  show "(\<lambda>_. Inr scenario1_document) ''{}'' = Inr scenario1_document" by simp
  show "subscript_key scenario1_document ''results'' = Inr (JObj [(''items'', JArr scenario1_items)])"
    by (simp add: scenario1_document_def transcript_document_def)
  show "subscript_key (JObj [(''items'', JArr scenario1_items)]) ''items'' =
      Inr (JArr ([] @ [labelled_item ''pronunciation'' ''spk_0'' ''Hello'',
                       unlabelled_item ''punctuation'' '',''] @
                 [labelled_item ''pronunciation'' ''spk_0'' ''there'']))"
    by (simp add: scenario1_items_def)
  show "list_all well_formed_item
      ([] @ [labelled_item ''pronunciation'' ''spk_0'' ''Hello'',
             unlabelled_item ''punctuation'' '',''] @
       [labelled_item ''pronunciation'' ''spk_0'' ''there''])"
    by (simp add: labelled_item_def unlabelled_item_def well_formed_item_def
        has_string_content_def)
qed (simp_all add: labelled_item_def unlabelled_item_def item_content_def is_space_def)

text \<open>
  C3, as stated, fails. When the first item is a punctuation mark, \<open>rstrip\<close> removes the
  space that ends the header, and the output holds no header text at all; a content that
  holds a line break and the header text adds an occurrence; and the empty sequence gives
  the empty string.
\<close>

theorem single_header_counterexample:
  "extract_transcript_from_textract (\<lambda>_. Inr (transcript_document leading_punctuation_items)) ''{}''
     = Inr ''\<newline>spk_0:. '' \<and>
   occurrences ''\<newline>spk_0: '' ''\<newline>spk_0:. '' = 0 \<and>
   extract_transcript_from_textract (\<lambda>_. Inr (transcript_document header_in_content_items)) ''{}''
     = Inr ''\<newline>spk_0: a\<newline>spk_0: b '' \<and>
   occurrences ''\<newline>spk_0: '' ''\<newline>spk_0: a\<newline>spk_0: b '' = 2 \<and>
   extract_transcript_from_textract (\<lambda>_. Inr (transcript_document [])) ''{}'' = Inr [] \<and>
   occurrences ''\<newline>spk_0: '' [] = 0"
proof -
  have "extract_transcript_from_textract
      (\<lambda>_. Inr (transcript_document leading_punctuation_items)) ''{}'' = Inr ''\<newline>spk_0:. ''"
    unfolding extract_transcript_from_textract_def leading_punctuation_items_def
      transcript_document_def labelled_item_def
    by (simp add: loop_body_def item_content_def new_speaker_def py_str_def
        rstrip_def is_space_def)
  moreover have "occurrences ''\<newline>spk_0: '' ''\<newline>spk_0:. '' = 0"
    by simp
  moreover have "extract_transcript_from_textract
      (\<lambda>_. Inr (transcript_document header_in_content_items)) ''{}''
        = Inr ''\<newline>spk_0: a\<newline>spk_0: b ''"
    unfolding extract_transcript_from_textract_def header_in_content_items_def
      transcript_document_def labelled_item_def
    by (simp add: loop_body_def item_content_def new_speaker_def py_str_def
        rstrip_def is_space_def)
  moreover have "occurrences ''\<newline>spk_0: '' ''\<newline>spk_0: a\<newline>spk_0: b '' = 2"
    by simp
  moreover have "extract_transcript_from_textract (\<lambda>_. Inr (transcript_document [])) ''{}'' = Inr []"
    unfolding extract_transcript_from_textract_def transcript_document_def by simp
  moreover have "occurrences ''\<newline>spk_0: '' [] = 0"
    by simp
  ultimately show ?thesis by blast
qed

text \<open>
  C3, amended. Let every item of a well-formed sequence carry the same speaker label, let
  no content hold a line break, and let the first item be a word whose content holds a
  character that is not whitespace. Then the formatter returns, its output
  starts with the header (a newline, the label, a colon and a space), and the header
  occurs in the output exactly once.
\<close>

theorem single_speaker_single_header:
  assumes doc: "loads file_content = Inr doc"
      "subscript_key doc ''results'' = Inr results"
      "subscript_key results ''items'' = Inr (JArr (first # rest))"
    and wf: "list_all well_formed_item (first # rest)"
    and labels: "list_all (\<lambda>item. dict_get item ''speaker_label'' JNull = Inr (JStr l)) (first # rest)"
    and contents: "\<forall>item \<in> set (first # rest). \<forall>c.
        item_content item = Inr (JStr c) \<longrightarrow> CHR ''\<newline>'' \<notin> set c"
    and first: "subscript_key first ''type'' = Inr (JStr ''pronunciation'')"
      "item_content first = Inr (JStr c1)" "\<exists>x \<in> set c1. \<not> is_space x"
  shows "\<exists>out. extract_transcript_from_textract loads file_content = Inr out \<and>
      prefix (''\<newline>'' @ l @ '': '') out \<and>
      occurrences (''\<newline>'' @ l @ '': '') out = 1"
proof -
  from first(3) obtain a x b where c1: "c1 = a @ x # b" and x: "\<not> is_space x"
    by (auto dest!: split_list)
  define z where "z = ''\<newline>'' @ l @ '': '' @ a @ [x]"
  have z: "z \<noteq> []" "\<not> is_space (last z)"
    using x by (simp_all add: z_def)
  from labels have lf: "dict_get first ''speaker_label'' JNull = Inr (JStr l)" by simp
  have "new_speaker (JStr l) JNull" by (simp add: new_speaker_def)
  then have step: "loop_body first ([], JNull) = Inr (z @ (b @ '' ''), JStr l)"
    unfolding loop_body_fields [OF lf first(2) first(1)] z_def c1 by (simp add: py_str_def)
  from contents first(2) have c1_line: "CHR ''\<newline>'' \<notin> set c1" by simp
  then have "CHR ''\<newline>'' \<notin> set (b @ '' '')" by (simp add: c1)
  then have "\<exists>r'. for_items rest (z @ (b @ '' ''), JStr l) = Inr (z @ r', JStr l) \<and>
      CHR ''\<newline>'' \<notin> set r'"
    using wf labels contents by (intro for_items_same_speaker [OF z]) simp_all
  then obtain r' where rest: "for_items rest (z @ (b @ '' ''), JStr l) = Inr (z @ r', JStr l)"
    and r': "CHR ''\<newline>'' \<notin> set r'" by blast
  have ex: "extract_transcript_from_textract loads file_content = Inr (z @ r')"
    unfolding extract_transcript_items [of loads file_content, OF doc] by (simp add: step rest)
  have pref: "prefix (''\<newline>'' @ l @ '': '') (z @ r')"
    by (simp add: z_def)
  from c1_line r' have "count_list ('': '' @ a @ [x] @ r') CHR ''\<newline>'' = 0"
    by (intro count_list_absent) (simp add: c1)
  then have "count_list (l @ '': '' @ a @ [x] @ r') CHR ''\<newline>''
      < count_list (CHR ''\<newline>'' # l @ '': '') CHR ''\<newline>''"
    by (simp add: count_list_append)
  then have "occurrences (CHR ''\<newline>'' # l @ '': '') (l @ '': '' @ a @ [x] @ r') = 0"
    by (rule occurrences_too_few)
  then have "occurrences (''\<newline>'' @ l @ '': '') (z @ r') = 1"
    by (simp add: z_def)
  with ex pref show ?thesis by blast
qed

theorem single_speaker_single_header_witness:
  "\<exists>out. extract_transcript_from_textract
        (\<lambda>_. Inr (transcript_document
           (labelled_item ''pronunciation'' ''spk_0'' ''Hello'' #
            [labelled_item ''punctuation'' ''spk_0'' ''.'']))) ''{}'' = Inr out \<and>
      prefix (''\<newline>'' @ ''spk_0'' @ '': '') out \<and>
      occurrences (''\<newline>'' @ ''spk_0'' @ '': '') out = 1"
proof (rule single_speaker_single_header
    [where doc = "transcript_document
           (labelled_item ''pronunciation'' ''spk_0'' ''Hello'' #
            [labelled_item ''punctuation'' ''spk_0'' ''.''])"
       and results = "JObj [(''items'', JArr
           (labelled_item ''pronunciation'' ''spk_0'' ''Hello'' #
            [labelled_item ''punctuation'' ''spk_0'' ''.'']))]"
       and ?c1.0 = "''Hello''"])
  show "list_all well_formed_item
      (labelled_item ''pronunciation'' ''spk_0'' ''Hello'' #
       [labelled_item ''punctuation'' ''spk_0'' ''.''])"
    by (simp add: labelled_item_def well_formed_item_def has_string_content_def)
qed (simp_all add: transcript_document_def labelled_item_def item_content_def is_space_def)

section \<open>Properties of the transcription handler\<close>

lemma event_bucket_s3_event [simp]: "event_bucket (s3_event bucket key) = Inr bucket"
  by (simp add: event_bucket_def s3_event_def)

lemma event_key_s3_event [simp]: "event_key (s3_event bucket key) = Inr key"
  by (simp add: event_key_def s3_event_def)

lemma missing_variable_text:
  "exn_str (KeyError (JStr ''S3BUCKETNAMETEXT'')) = [CHR 0x27] @ ''S3BUCKETNAMETEXT'' @ [CHR 0x27]"
  by code_simp

text \<open>
  C4, as stated, fails. The lookup \<open>os.environ['S3BUCKETNAMETEXT']\<close> stands inside the
  \<open>try\<close> block, so the \<open>KeyError\<close> of a missing variable is caught by
  \<open>except Exception\<close>: the handler returns a response with status 500 and raises nothing.
\<close>

theorem missing_variable_counterexample:
  "transcribe_lambda_handler (example_transcribe_env\<lparr>environ := Map.empty\<rparr>)
       (s3_event (JStr ''audio'') (JStr ''dialog.mp3''))
     = (Inr \<lparr>statusCode = 500,
             body = json_dumps (''Error occurred: '' @ [CHR 0x27] @ ''S3BUCKETNAMETEXT'' @ [CHR 0x27])\<rparr>,
        []) \<and>
   \<not> isl (fst (transcribe_lambda_handler (example_transcribe_env\<lparr>environ := Map.empty\<rparr>)
       (s3_event (JStr ''audio'') (JStr ''dialog.mp3''))))"
  by (simp add: transcribe_lambda_handler_def submit_job_def example_transcribe_env_def
      error_response_def missing_variable_text del: exn_str.simps)

text \<open>
  C4, amended. When the handler is invoked with an accepted event (object key exactly
  "dialog.mp3") and the variable S3BUCKETNAMETEXT is absent, the \<open>KeyError\<close> is caught: the
  handler returns status 500 with the body "Error occurred: 'S3BUCKETNAMETEXT'" (JSON
  encoded) and makes no request to the Transcribe client.
\<close>

theorem missing_variable_is_reported:
  assumes "event_bucket event = Inr bucket"
    and "event_key event = Inr (JStr ''dialog.mp3'')"
    and "environ env ''S3BUCKETNAMETEXT'' = None"
  shows "transcribe_lambda_handler env event
     = (Inr \<lparr>statusCode = 500,
             body = json_dumps (''Error occurred: '' @ [CHR 0x27] @ ''S3BUCKETNAMETEXT'' @ [CHR 0x27])\<rparr>,
        [])"
  using assms
  by (simp add: transcribe_lambda_handler_def submit_job_def error_response_def
      missing_variable_text del: exn_str.simps)

theorem missing_variable_is_reported_witness:
  "transcribe_lambda_handler (example_transcribe_env\<lparr>environ := Map.empty\<rparr>)
       (s3_event (JStr ''audio'') (JStr ''dialog.mp3''))
     = (Inr \<lparr>statusCode = 500,
             body = json_dumps (''Error occurred: '' @ [CHR 0x27] @ ''S3BUCKETNAMETEXT'' @ [CHR 0x27])\<rparr>,
        [])"
  using missing_variable_is_reported
    [of "s3_event (JStr ''audio'') (JStr ''dialog.mp3'')" "JStr ''audio''"
        "example_transcribe_env\<lparr>environ := Map.empty\<rparr>"]
  by simp

text \<open>
  C5. For an event whose record has the object key "dialog.mp3", with the variable
  S3BUCKETNAMETEXT set and the Transcribe client accepting the job, the handler makes
  exactly one request: job name "transcription-job-" followed by the UUID drawn in this
  invocation, media URI s3://bucket/dialog.mp3, format mp3, language en-US, speaker labels
  on with at most 2 speakers, output bucket from the variable, output key the job name
  followed by "-transcript.json". It returns status 200.
\<close>

theorem accepted_event_starts_one_job:
  assumes "event_bucket event = Inr bucket"
    and "event_key event = Inr (JStr ''dialog.mp3'')"
    and "environ env ''S3BUCKETNAMETEXT'' = Some output_bucket"
    and "request = \<lparr>TranscriptionJobName = ''transcription-job-'' @ uuid4 env,
                     MediaFileUri = ''s3://'' @ py_str bucket @ ''/'' @ ''dialog.mp3'',
                     MediaFormat = ''mp3'',
                     LanguageCode = ''en-US'',
                     OutputBucketName = output_bucket,
                     OutputKey = ''transcription-job-'' @ uuid4 env @ ''-transcript.json'',
                     ShowSpeakerLabels = True,
                     MaxSpeakerLabels = 2\<rparr>"
    and "start_transcription_job env request = Inr reply"
  shows "transcribe_lambda_handler env event
     = (Inr \<lparr>statusCode = 200,
             body = json_dumps (''Submitted transcription job for dialog.mp3 from bucket '' @
                                py_str bucket @ ''.'')\<rparr>,
        [request])"
  using assms
  by (simp add: transcribe_lambda_handler_def submit_job_def py_str_def)

theorem accepted_event_starts_one_job_witness:
  "transcribe_lambda_handler example_transcribe_env (s3_event (JStr ''audio'') (JStr ''dialog.mp3''))
     = (Inr \<lparr>statusCode = 200,
             body = json_dumps (''Submitted transcription job for dialog.mp3 from bucket '' @
                                py_str (JStr ''audio'') @ ''.'')\<rparr>,
        [\<lparr>TranscriptionJobName = ''transcription-job-'' @ uuid4 example_transcribe_env,
          MediaFileUri = ''s3://'' @ py_str (JStr ''audio'') @ ''/'' @ ''dialog.mp3'',
          MediaFormat = ''mp3'',
          LanguageCode = ''en-US'',
          OutputBucketName = ''transcripts'',
          OutputKey = ''transcription-job-'' @ uuid4 example_transcribe_env @ ''-transcript.json'',
          ShowSpeakerLabels = True,
          MaxSpeakerLabels = 2\<rparr>])"
proof (rule accepted_event_starts_one_job [where reply = "JObj []"])
  show "environ example_transcribe_env ''S3BUCKETNAMETEXT'' = Some ''transcripts''"
    by (simp add: example_transcribe_env_def)
  show "start_transcription_job example_transcribe_env
      \<lparr>TranscriptionJobName = ''transcription-job-'' @ uuid4 example_transcribe_env,
       MediaFileUri = ''s3://'' @ py_str (JStr ''audio'') @ ''/'' @ ''dialog.mp3'',
       MediaFormat = ''mp3'',
       LanguageCode = ''en-US'',
       OutputBucketName = ''transcripts'',
       OutputKey = ''transcription-job-'' @ uuid4 example_transcribe_env @ ''-transcript.json'',
       ShowSpeakerLabels = True,
       MaxSpeakerLabels = 2\<rparr> = Inr (JObj [])"
    by (simp add: example_transcribe_env_def)
qed simp_all

text \<open>
  C7. For an event whose record has an object key different from "dialog.mp3", the handler
  returns status 200 with the (JSON encoded) message "Skipping file key - not dialog.mp3"
  and makes no request; the result is the same in every environment, so neither the
  environment variables nor the Transcribe client are consulted.
\<close>

theorem other_key_is_skipped:
  assumes "event_bucket event = Inr bucket"
    and "event_key event = Inr key"
    and "\<not> py_eq key (JStr ''dialog.mp3'')"
  shows "transcribe_lambda_handler env event
     = (Inr \<lparr>statusCode = 200,
             body = json_dumps (''Skipping file '' @ py_str key @ '' - not dialog.mp3'')\<rparr>,
        [])"
  using assms by (simp add: transcribe_lambda_handler_def)

theorem other_key_is_skipped_witness:
  "transcribe_lambda_handler example_transcribe_env (s3_event (JStr ''audio'') (JStr ''other.mp3''))
     = (Inr \<lparr>statusCode = 200,
             body = [CHR 0x22] @ ''Skipping file other.mp3 - not dialog.mp3'' @ [CHR 0x22]\<rparr>,
        []) \<and>
   sublist ''Skipping file other.mp3''
     ([CHR 0x22] @ ''Skipping file other.mp3 - not dialog.mp3'' @ [CHR 0x22])"
proof -
  have encoded: "json_dumps (''Skipping file '' @ py_str (JStr ''other.mp3'') @ '' - not dialog.mp3'')
      = [CHR 0x22] @ ''Skipping file other.mp3 - not dialog.mp3'' @ [CHR 0x22]"
    by code_simp
  have inside: "sublist ''Skipping file other.mp3''
      ([CHR 0x22] @ ''Skipping file other.mp3 - not dialog.mp3'' @ [CHR 0x22])"
    by code_simp
  have "transcribe_lambda_handler example_transcribe_env
      (s3_event (JStr ''audio'') (JStr ''other.mp3''))
    = (Inr \<lparr>statusCode = 200,
            body = json_dumps (''Skipping file '' @ py_str (JStr ''other.mp3'') @ '' - not dialog.mp3'')\<rparr>,
       [])"
    by (rule other_key_is_skipped [where bucket = "JStr ''audio''"]) simp_all
  with encoded inside show ?thesis by (simp only:)
qed

section \<open>Properties of the summarization handler\<close>

lemma example_transcript:
  "extract_transcript_from_textract (json_loads example_summarize_env) ''transcript''
     = Inr ''\<newline>spk_0: Hello, there ''"
  unfolding extract_transcript_from_textract_def example_summarize_env_def
    scenario1_document_def scenario1_items_def transcript_document_def labelled_item_def
    unlabelled_item_def
  by (simp add: loop_body_def item_content_def new_speaker_def py_str_def
      rstrip_def is_space_def)

lemma example_summary:
  "parse_response (json_loads example_summarize_env) ''reply'' = Inr (JStr ''Calm call.'')"
proof -
  have "sublist ''text'' ''text''" by simp
  then show ?thesis
    by (simp add: parse_response_def example_summarize_env_def model_reply_def)
qed

lemma sublist_concat_member: "t \<in> set ts \<Longrightarrow> sublist t (concat ts)"
proof (induction ts)
  case Nil
  then show ?case by simp
next
  case (Cons a ts)
  show ?case
  proof (cases "t = a")
    case True
    then show ?thesis by (simp add: sublist_appendI)
  next
    case False
    with Cons have "sublist t (concat ts)" by simp
    then show ?thesis by (simp add: sublist_append)
  qed
qed

text \<open>
  C6. For an event whose object key contains "-transcript.json", whose object is fetched
  and formats to a dialogue, with the template read and rendered and the model call and
  the reading of its answer succeeding, the handler makes three calls in this order: the
  fetch, one model invocation whose request carries the rendered prompt, and one write, of
  the summary, at key "results.txt" in the bucket of the event. The renderer is given the
  dialogue and the topics charges, location, availability; a renderer that inserts the
  transcript and the topics it is given yields a prompt that contains all four.
\<close>

theorem transcript_is_summarized_once:
  assumes "event_bucket event = Inr bucket"
    and "event_key event = Inr (JStr key)"
    and "sublist ''-transcript.json'' key"
    and "get_object env bucket (JStr key) = Inr file_content"
    and "extract_transcript_from_textract (json_loads env) file_content = Inr transcript"
    and "prompt_template env = Inr template_string"
    and "render env template_string transcript [''charges'', ''location'', ''availability''] = Inr prompt"
    and "\<forall>tr ts p. render env template_string tr ts = Inr p \<longrightarrow>
           sublist tr p \<and> list_all (\<lambda>t. sublist t p) ts"
    and "invoke_model env (model_kwargs prompt) = Inr raw"
    and "parse_response (json_loads env) raw = Inr summary"
  shows "snd (summarize_lambda_handler env event)
       = [GetObject bucket (JStr key),
          InvokeModel (model_kwargs prompt),
          PutObject bucket ''results.txt'' summary ''text/plain''] \<and>
     sublist transcript prompt \<and> sublist ''charges'' prompt \<and>
     sublist ''location'' prompt \<and> sublist ''availability'' prompt"
proof -
  have run: "summarize_object env bucket (JStr key)
      = (Inr summary, [GetObject bucket (JStr key), InvokeModel (model_kwargs prompt)])"
    using assms(4-7,9,10)
    by (simp add: summarize_object_def bedrock_summarisation_def topics_def)
  have "snd (summarize_lambda_handler env event)
       = [GetObject bucket (JStr key),
          InvokeModel (model_kwargs prompt),
          PutObject bucket ''results.txt'' summary ''text/plain'']"
    using assms(1-3) run
    by (simp add: summarize_lambda_handler_def split: sum.splits)
  moreover from assms(7,8)
  have "sublist transcript prompt \<and>
      list_all (\<lambda>t. sublist t prompt) [''charges'', ''location'', ''availability'']"
    by blast
  ultimately show ?thesis by simp
qed

theorem transcript_is_summarized_once_witness:
  "snd (summarize_lambda_handler example_summarize_env
          (s3_event (JStr ''calls'') (JStr ''job123-transcript.json'')))
       = [GetObject (JStr ''calls'') (JStr ''job123-transcript.json''),
          InvokeModel (model_kwargs (''Summarize: '' @ ''\<newline>spk_0: Hello, there '' @
             concat [''charges'', ''location'', ''availability''])),
          PutObject (JStr ''calls'') ''results.txt'' (JStr ''Calm call.'') ''text/plain''] \<and>
     sublist ''\<newline>spk_0: Hello, there '' (''Summarize: '' @ ''\<newline>spk_0: Hello, there '' @
             concat [''charges'', ''location'', ''availability'']) \<and>
     sublist ''charges'' (''Summarize: '' @ ''\<newline>spk_0: Hello, there '' @
             concat [''charges'', ''location'', ''availability'']) \<and>
     sublist ''location'' (''Summarize: '' @ ''\<newline>spk_0: Hello, there '' @
             concat [''charges'', ''location'', ''availability'']) \<and>
     sublist ''availability'' (''Summarize: '' @ ''\<newline>spk_0: Hello, there '' @
             concat [''charges'', ''location'', ''availability''])"
proof (rule transcript_is_summarized_once
    [where file_content = "''transcript''" and template_string = "''Summarize: ''"
       and raw = "''reply''"])
  show "sublist ''-transcript.json'' ''job123-transcript.json''"
    by code_simp
  show "extract_transcript_from_textract (json_loads example_summarize_env) ''transcript''
      = Inr ''\<newline>spk_0: Hello, there ''"
    by (rule example_transcript)
  show "parse_response (json_loads example_summarize_env) ''reply'' = Inr (JStr ''Calm call.'')"
    by (rule example_summary)
  show "\<forall>tr ts p. render example_summarize_env ''Summarize: '' tr ts = Inr p \<longrightarrow>
      sublist tr p \<and> list_all (\<lambda>t. sublist t p) ts"
  proof (intro allI impI)
    fix tr ts p
    assume "render example_summarize_env ''Summarize: '' tr ts = Inr p"
    then have p: "p = ''Summarize: '' @ tr @ concat ts"
      by (simp add: example_summarize_env_def)
    have "sublist tr (''Summarize: '' @ tr @ concat ts)"
      unfolding sublist_def by blast
    moreover have "sublist t (''Summarize: '' @ tr @ concat ts)" if "t \<in> set ts" for t
    proof -
      from that have "sublist t (concat ts)" by (rule sublist_concat_member)
      then have "sublist t ((''Summarize: '' @ tr) @ concat ts)"
        by (simp only: sublist_append) blast
      then show ?thesis by simp
    qed
    ultimately show "sublist tr p \<and> list_all (\<lambda>t. sublist t p) ts"
      unfolding p by (simp add: list_all_iff)
  qed
qed (simp_all add: example_summarize_env_def)

text \<open>
  C8. For an event whose record has an object key that does not contain
  "-transcript.json", the handler returns status 200 with the (JSON encoded) message
  "Skipping file key - not a transcript JSON file" and makes no call: no fetch, no model
  invocation, no write.
\<close>

theorem other_object_is_skipped:
  assumes "event_bucket event = Inr bucket"
    and "event_key event = Inr (JStr key)"
    and "\<not> sublist ''-transcript.json'' key"
  shows "summarize_lambda_handler env event
     = (Inr \<lparr>statusCode = 200,
             body = json_dumps (''Skipping file '' @ key @ '' - not a transcript JSON file'')\<rparr>,
        [])"
  using assms by (simp add: summarize_lambda_handler_def py_str_def)

theorem other_object_is_skipped_witness:
  "summarize_lambda_handler example_summarize_env (s3_event (JStr ''calls'') (JStr ''results.txt''))
     = (Inr \<lparr>statusCode = 200,
             body = [CHR 0x22] @ ''Skipping file results.txt - not a transcript JSON file'' @ [CHR 0x22]\<rparr>,
        [])"
proof -
  have encoded: "json_dumps (''Skipping file '' @ ''results.txt'' @ '' - not a transcript JSON file'')
      = [CHR 0x22] @ ''Skipping file results.txt - not a transcript JSON file'' @ [CHR 0x22]"
    by code_simp
  have outside: "\<not> sublist ''-transcript.json'' ''results.txt''"
    by code_simp
  have "summarize_lambda_handler example_summarize_env
      (s3_event (JStr ''calls'') (JStr ''results.txt''))
    = (Inr \<lparr>statusCode = 200,
            body = json_dumps (''Skipping file '' @ ''results.txt'' @ '' - not a transcript JSON file'')\<rparr>,
       [])"
    by (rule other_object_is_skipped [where bucket = "JStr ''calls''", OF _ _ outside]) simp_all
  with encoded show ?thesis by (simp only:)
qed

text \<open>
  C9. In an accepted invocation (the key contains "-transcript.json"), when a step before
  the write raises an exception \<open>e\<close> (the fetch of the object; the parsing and formatting
  of the transcript; the reading or the rendering of the template; the model invocation;
  the reading of the model's answer), the handler returns status 500 with the text of \<open>e\<close>
  in the body, and it has requested no write, so the object at "results.txt" is as it was.
  When every step succeeds, the handler requests exactly one write, of the whole summary,
  at "results.txt" in the bucket of the event. A write is one \<open>put_object\<close> request; that
  the store applies a request wholly or not at all is a property of S3, outside the handler.
\<close>

theorem failure_before_write:
  assumes "event_bucket event = Inr bucket"
    and "event_key event = Inr key"
    and "py_contains key ''-transcript.json'' = Inr True"
  shows "((get_object env bucket key = Inl e
       \<or> (get_object env bucket key = Inr file_content \<and>
           (extract_transcript_from_textract (json_loads env) file_content = Inl e
            \<or> (extract_transcript_from_textract (json_loads env) file_content = Inr transcript \<and>
                (prompt_template env = Inl e
                 \<or> (prompt_template env = Inr template_string \<and>
                     (render env template_string transcript
                          [''charges'', ''location'', ''availability''] = Inl e
                      \<or> (render env template_string transcript
                             [''charges'', ''location'', ''availability''] = Inr prompt \<and>
                          (invoke_model env (model_kwargs prompt) = Inl e
                           \<or> (invoke_model env (model_kwargs prompt) = Inr raw \<and>
                               parse_response (json_loads env) raw = Inl e))))))))))
      \<longrightarrow> fst (summarize_lambda_handler env event)
            = Inr \<lparr>statusCode = 500, body = json_dumps (''Error occurred: '' @ exn_str e)\<rparr> \<and>
          filter is_put (snd (summarize_lambda_handler env event)) = []) \<and>
     (get_object env bucket key = Inr file_content \<and>
      extract_transcript_from_textract (json_loads env) file_content = Inr transcript \<and>
      prompt_template env = Inr template_string \<and>
      render env template_string transcript [''charges'', ''location'', ''availability'']
        = Inr prompt \<and>
      invoke_model env (model_kwargs prompt) = Inr raw \<and>
      parse_response (json_loads env) raw = Inr summary
      \<longrightarrow> filter is_put (snd (summarize_lambda_handler env event))
            = [PutObject bucket ''results.txt'' summary ''text/plain''])"
proof (intro conjI impI)
  assume fails: "get_object env bucket key = Inl e
       \<or> (get_object env bucket key = Inr file_content \<and>
           (extract_transcript_from_textract (json_loads env) file_content = Inl e
            \<or> (extract_transcript_from_textract (json_loads env) file_content = Inr transcript \<and>
                (prompt_template env = Inl e
                 \<or> (prompt_template env = Inr template_string \<and>
                     (render env template_string transcript
                          [''charges'', ''location'', ''availability''] = Inl e
                      \<or> (render env template_string transcript
                             [''charges'', ''location'', ''availability''] = Inr prompt \<and>
                          (invoke_model env (model_kwargs prompt) = Inl e
                           \<or> (invoke_model env (model_kwargs prompt) = Inr raw \<and>
                               parse_response (json_loads env) raw = Inl e)))))))))"
  then consider
      (early) "summarize_object env bucket key = (Inl e, [GetObject bucket key])"
    | (late) "summarize_object env bucket key
        = (Inl e, [GetObject bucket key, InvokeModel (model_kwargs prompt)])"
    by (auto simp: summarize_object_def bedrock_summarisation_def topics_def)
  then have "summarize_lambda_handler env event
       = (Inr (error_response e), [GetObject bucket key]) \<or>
     summarize_lambda_handler env event
       = (Inr (error_response e), [GetObject bucket key, InvokeModel (model_kwargs prompt)])"
    using assms by cases (simp_all add: summarize_lambda_handler_def)
  then show "fst (summarize_lambda_handler env event)
      = Inr \<lparr>statusCode = 500, body = json_dumps (''Error occurred: '' @ exn_str e)\<rparr>"
    and "filter is_put (snd (summarize_lambda_handler env event)) = []"
    by (auto simp: error_response_def)
next
  assume ok: "get_object env bucket key = Inr file_content \<and>
      extract_transcript_from_textract (json_loads env) file_content = Inr transcript \<and>
      prompt_template env = Inr template_string \<and>
      render env template_string transcript [''charges'', ''location'', ''availability'']
        = Inr prompt \<and>
      invoke_model env (model_kwargs prompt) = Inr raw \<and>
      parse_response (json_loads env) raw = Inr summary"
  then have "summarize_object env bucket key
      = (Inr summary, [GetObject bucket key, InvokeModel (model_kwargs prompt)])"
    by (simp add: summarize_object_def bedrock_summarisation_def topics_def)
  with assms show "filter is_put (snd (summarize_lambda_handler env event))
      = [PutObject bucket ''results.txt'' summary ''text/plain'']"
    by (simp add: summarize_lambda_handler_def split: sum.splits)
qed

theorem failure_before_write_witness:
  "fst (summarize_lambda_handler
          (example_summarize_env\<lparr>json_loads := (\<lambda>s. Inr (JObj []))\<rparr>)
          (s3_event (JStr ''calls'') (JStr ''job123-transcript.json'')))
     = Inr \<lparr>statusCode = 500,
            body = json_dumps (''Error occurred: '' @ exn_str (KeyError (JStr ''results'')))\<rparr> \<and>
   filter is_put (snd (summarize_lambda_handler
          (example_summarize_env\<lparr>json_loads := (\<lambda>s. Inr (JObj []))\<rparr>)
          (s3_event (JStr ''calls'') (JStr ''job123-transcript.json'')))) = []"
proof -
  have accepted: "py_contains (JStr ''job123-transcript.json'') ''-transcript.json'' = Inr True"
    by code_simp
  have fetched: "get_object (example_summarize_env\<lparr>json_loads := (\<lambda>s. Inr (JObj []))\<rparr>)
      (JStr ''calls'') (JStr ''job123-transcript.json'') = Inr ''transcript''"
    by (simp add: example_summarize_env_def)
  have raised: "extract_transcript_from_textract
      (json_loads (example_summarize_env\<lparr>json_loads := (\<lambda>s. Inr (JObj []))\<rparr>)) ''transcript''
      = Inl (KeyError (JStr ''results''))"
    by (simp add: extract_transcript_from_textract_def)
  from failure_before_write
    [of "s3_event (JStr ''calls'') (JStr ''job123-transcript.json'')" "JStr ''calls''"
        "JStr ''job123-transcript.json''"
        "example_summarize_env\<lparr>json_loads := (\<lambda>s. Inr (JObj []))\<rparr>"
        "KeyError (JStr ''results'')" "''transcript''",
     OF _ _ accepted]
    fetched raised
  show ?thesis by (simp del: exn_str.simps)
qed

section \<open>Malformed events, in both handlers\<close>

lemma lacks_key_raises: "lacks_key v k \<Longrightarrow> subscript_key v k = Inl (KeyError (JStr k))"
  by (cases v) (simp_all add: lacks_key_def)

lemma uncaught_bucket:
  assumes "event_bucket event = Inl e"
  shows "transcribe_lambda_handler tenv event = (Inl e, [])"
    and "summarize_lambda_handler senv event = (Inl e, [])"
  using assms by (simp_all add: transcribe_lambda_handler_def summarize_lambda_handler_def)

lemma uncaught_key:
  assumes "event_bucket event = Inr bucket" and "event_key event = Inl e"
  shows "transcribe_lambda_handler tenv event = (Inl e, [])"
    and "summarize_lambda_handler senv event = (Inl e, [])"
  using assms by (simp_all add: transcribe_lambda_handler_def summarize_lambda_handler_def)

text \<open>
  C10. When the event has no "Records" entry, or an empty "Records" list, or a first record
  without "s3", or an "s3" entry without "bucket", or a "bucket" entry without "name", or
  (bucket and name present) an "s3" entry without "object" or an "object" entry without
  "key", both handlers raise a lookup error (\<open>KeyError\<close> or \<open>IndexError\<close>) that nothing
  catches: they return no response, neither the skip message nor status 500, and make no
  call.
\<close>

theorem malformed_event_is_uncaught:
  assumes "lacks_key event ''Records''
     \<or> subscript_key event ''Records'' = Inr (JArr [])
     \<or> (subscript_key event ''Records'' = Inr (JArr (first_record # other_records)) \<and>
         (lacks_key first_record ''s3''
          \<or> (subscript_key first_record ''s3'' = Inr s3_entry \<and>
              (lacks_key s3_entry ''bucket''
               \<or> (subscript_key s3_entry ''bucket'' = Inr bucket_entry \<and>
                   (lacks_key bucket_entry ''name''
                    \<or> (subscript_key bucket_entry ''name'' = Inr bucket_name \<and>
                        (lacks_key s3_entry ''object''
                         \<or> (subscript_key s3_entry ''object'' = Inr object_entry \<and>
                             lacks_key object_entry ''key'')))))))))"
  shows "\<exists>e. lookup_error e \<and>
      transcribe_lambda_handler tenv event = (Inl e, []) \<and>
      summarize_lambda_handler senv event = (Inl e, [])"
proof -
  have "(\<exists>e. lookup_error e \<and> event_bucket event = Inl e) \<or>
      (\<exists>e b. lookup_error e \<and> event_bucket event = Inr b \<and> event_key event = Inl e)"
    using assms
    by (auto simp: event_bucket_def event_key_def dest!: lacks_key_raises)
  then consider (bucket) e where "lookup_error e" "event_bucket event = Inl e"
    | (key) e b where "lookup_error e" "event_bucket event = Inr b" "event_key event = Inl e"
    by blast
  then show ?thesis
  proof cases
    case bucket
    with uncaught_bucket(1) [OF bucket(2), of tenv] uncaught_bucket(2) [OF bucket(2), of senv]
    show ?thesis by blast
  next
    case key
    with uncaught_key(1) [OF key(2,3), of tenv] uncaught_key(2) [OF key(2,3), of senv]
    show ?thesis by blast
  qed
qed

theorem malformed_event_is_uncaught_witness:
  "\<exists>e. lookup_error e \<and>
      transcribe_lambda_handler example_transcribe_env (JObj [(''Records'', JArr [])]) = (Inl e, []) \<and>
      summarize_lambda_handler example_summarize_env (JObj [(''Records'', JArr [])]) = (Inl e, [])"
  using malformed_event_is_uncaught
    [of "JObj [(''Records'', JArr [])]" JNull "[]" JNull JNull JNull JNull
        example_transcribe_env example_summarize_env]
  by simp

end
